theory Spec2Isabelle
  imports Complex_Main
begin

section \<open>Data model\<close>

text \<open>
  The rows that \<^verbatim>\<open>listings/serializers.py\<close> and
  \<^verbatim>\<open>listings/management/commands/seed.py\<close> read and write. Users and UUID
  keys are opaque identifiers, a \<^verbatim>\<open>date\<close> is its day number (so that
  \<^verbatim>\<open>(b - a).days\<close> is the difference of two integers), and a
  \<^verbatim>\<open>Decimal\<close> is the rational number it denotes: the product of a
  \<^verbatim>\<open>Decimal\<close> and an \<^verbatim>\<open>int\<close> is exact as long as it fits the 28
  significant digits of Python's default decimal context, which a price times a number
  of days between two dates does for any price of up to 21 digits.
\<close>

type_synonym user = nat
type_synonym uuid = nat
type_synonym date = int
type_synonym decimal = rat

datatype status = Pending | Confirmed | Cancelled | Completed

record listing =
  listing_id :: uuid
  host :: user
  price_per_night :: decimal
  max_guests :: int
  available :: bool

text \<open>A Booking row; \<open>listing\<close> and \<open>guest\<close> are the foreign keys.\<close>

record booking =
  booking_id :: uuid
  listing :: uuid
  guest :: user
  check_in_date :: date
  check_out_date :: date
  number_of_guests :: int
  total_price :: decimal
  status :: status

record review =
  review_id :: uuid
  review_listing :: uuid
  review_guest :: user
  review_booking :: "uuid option"
  rating :: int
  comment :: string

record db =
  listings :: "listing list"
  bookings :: "booking list"
  reviews :: "review list"

text \<open>
  Every \<^verbatim>\<open>serializers.ValidationError\<close> of the two serializers, by the message it
  carries, and the \<^verbatim>\<open>DoesNotExist\<close> that \<^verbatim>\<open>create\<close> does not catch:
  \<^item> \<open>InvalidDateRange\<close>: "Check-out date must be after check-in date"
  \<^item> \<open>PastDate\<close>: "Check-in date cannot be in the past"
  \<^item> \<open>NotFound\<close>: "Listing not found"
  \<^item> \<open>CapacityExceeded n m\<close>: "Number of guests (n) exceeds maximum allowed (m)"
  \<^item> \<open>ListingUnavailable\<close>: "Listing is not available"
  \<^item> \<open>DateConflict\<close>: "Listing is already booked for the selected dates"
  \<^item> \<open>InvalidRating\<close>: "Rating must be between 1 and 5"
  \<^item> \<open>NotEligible\<close>: "You can only review listings you have stayed at"
  \<^item> \<open>DuplicateReview\<close>: "You have already reviewed this listing"
\<close>

datatype error =
    InvalidDateRange
  | PastDate
  | NotFound
  | CapacityExceeded int int
  | ListingUnavailable
  | DateConflict
  | InvalidRating
  | NotEligible
  | DuplicateReview
  | DoesNotExist

section \<open>The object manager\<close>

text \<open>
  \<^verbatim>\<open>Listing.objects.get(listing_id=...)\<close> and
  \<^verbatim>\<open>Booking.objects.get(booking_id=...)\<close>: the row with that key, \<open>None\<close> where
  the source raises \<^verbatim>\<open>DoesNotExist\<close>. Both keys are the tables' UUID keys, so
  the row found is the first one that matches.
\<close>

definition Listing_objects_get :: "db \<Rightarrow> uuid \<Rightarrow> listing option" where
  "Listing_objects_get d lid = find (\<lambda>l. listing_id l = lid) (listings d)"

definition Booking_objects_get :: "db \<Rightarrow> uuid \<Rightarrow> booking option" where
  "Booking_objects_get d bid = find (\<lambda>b. booking_id b = bid) (bookings d)"

text \<open>
  Modelled from the spec: the default of the \<open>status\<close> field of the Booking model.
  The model classes (\<^verbatim>\<open>listings/models.py\<close>) are not among the sources; the spec
  gives \<open>pending\<close> as the initial status of a booking.
\<close>

definition default_status :: status where
  "default_status = Pending"

text \<open>
  Modelled from the spec: \<^verbatim>\<open>Booking.objects.create\<close>, whose model class and
  constraints (\<^verbatim>\<open>listings/models.py\<close>) are not among the sources. The spec has a
  created record "persisted and returned" and notes that the source guards against
  overlaps only by the serializer's sequential check, so the call is Django's bare
  insert: it appends the row it is given, checks nothing and raises nothing. The row's
  fresh UUID key comes with the row.
\<close>

definition Booking_objects_create :: "booking \<Rightarrow> db \<Rightarrow> error + booking \<times> db" where
  "Booking_objects_create b d = Inr (b, d\<lparr>bookings := bookings d @ [b]\<rparr>)"

text \<open>
  Modelled from the spec: \<^verbatim>\<open>Review.objects.create\<close>, whose model class
  (\<^verbatim>\<open>listings/models.py\<close>) is not among the sources; as for bookings, the bare
  insert.
\<close>

definition Review_objects_create :: "review \<Rightarrow> db \<Rightarrow> error + review \<times> db" where
  "Review_objects_create r d = Inr (r, d\<lparr>reviews := reviews d @ [r]\<rparr>)"

section \<open>BookingSerializer\<close>

text \<open>
  What a client sends. \<open>req_total_price\<close> and \<open>req_guest\<close> are the values a client
  may put under the keys \<^verbatim>\<open>total_price\<close> and \<^verbatim>\<open>guest\<close>; \<open>req_status\<close> is
  the optional \<^verbatim>\<open>status\<close> key.
\<close>

record booking_request =
  req_listing_id :: uuid
  req_check_in_date :: date
  req_check_out_date :: date
  req_number_of_guests :: int
  req_status :: "status option"
  req_total_price :: "decimal option"
  req_guest :: "user option"

text \<open>The dictionary \<^verbatim>\<open>data\<close> / \<^verbatim>\<open>validated_data\<close>.\<close>

record booking_data =
  data_listing_id :: uuid
  data_check_in_date :: date
  data_check_out_date :: date
  data_number_of_guests :: int
  data_status :: "status option"

text \<open>
  The field declarations of \<^verbatim>\<open>BookingSerializer\<close>: \<^verbatim>\<open>guest\<close> is
  \<^verbatim>\<open>UserSerializer(read_only=True)\<close> and \<^verbatim>\<open>total_price\<close> is listed in
  \<^verbatim>\<open>read_only_fields\<close>, so neither key reaches \<^verbatim>\<open>data\<close>;
  \<^verbatim>\<open>status\<close> is in \<^verbatim>\<open>fields\<close> and not read-only, so it does.
\<close>

definition booking_to_internal_value :: "booking_request \<Rightarrow> booking_data" where
  "booking_to_internal_value rq =
     \<lparr>data_listing_id = req_listing_id rq,
      data_check_in_date = req_check_in_date rq,
      data_check_out_date = req_check_out_date rq,
      data_number_of_guests = req_number_of_guests rq,
      data_status = req_status rq\<rparr>"

text \<open>
  The queryset \<^verbatim>\<open>Booking.objects.filter(listing=listing,
  status__in=['confirmed', 'pending'], check_in_date__lt=data['check_out_date'],
  check_out_date__gt=data['check_in_date'])\<close>.
\<close>

definition overlapping_bookings :: "db \<Rightarrow> listing \<Rightarrow> booking_data \<Rightarrow> booking list" where
  "overlapping_bookings d l dat =
     filter (\<lambda>b. listing b = listing_id l
                \<and> (status b = Confirmed \<or> status b = Pending)
                \<and> check_in_date b < data_check_out_date dat
                \<and> check_out_date b > data_check_in_date dat)
            (bookings d)"

text \<open>\<^verbatim>\<open>BookingSerializer.validate\<close>; \<open>today\<close> is \<^verbatim>\<open>date.today()\<close>.\<close>

definition booking_validate :: "db \<Rightarrow> date \<Rightarrow> booking_data \<Rightarrow> error + booking_data" where
  "booking_validate d today dat =
     (if data_check_out_date dat \<le> data_check_in_date dat then Inl InvalidDateRange
      else if data_check_in_date dat < today then Inl PastDate
      else case Listing_objects_get d (data_listing_id dat) of
        None \<Rightarrow> Inl NotFound
      | Some l \<Rightarrow>
          if data_number_of_guests dat > max_guests l
          then Inl (CapacityExceeded (data_number_of_guests dat) (max_guests l))
          else if \<not> available l then Inl ListingUnavailable
          else if overlapping_bookings d l dat \<noteq> [] then Inl DateConflict
          else Inr dat)"

text \<open>
  \<^verbatim>\<open>BookingSerializer.create\<close>; \<open>usr\<close> is \<^verbatim>\<open>self.context['request'].user\<close>.
  The row is built from \<^verbatim>\<open>validated_data\<close>: the status is the client's when the
  key is present and the model's default otherwise.
\<close>

definition booking_create :: "db \<Rightarrow> user \<Rightarrow> uuid \<Rightarrow> booking_data \<Rightarrow> error + booking \<times> db" where
  "booking_create d usr new_id dat =
     (case Listing_objects_get d (data_listing_id dat) of
        None \<Rightarrow> Inl DoesNotExist
      | Some l \<Rightarrow>
          let duration = data_check_out_date dat - data_check_in_date dat;
              price = price_per_night l * of_int duration
          in Booking_objects_create
               \<lparr>booking_id = new_id,
                listing = listing_id l,
                guest = usr,
                check_in_date = data_check_in_date dat,
                check_out_date = data_check_out_date dat,
                number_of_guests = data_number_of_guests dat,
                total_price = price,
                status = (case data_status dat of None \<Rightarrow> default_status | Some s \<Rightarrow> s)\<rparr>
               d)"

text \<open>
  A creation request as the framework runs it: \<^verbatim>\<open>is_valid()\<close> (the field
  declarations, then \<^verbatim>\<open>validate\<close>) and, when that raised nothing,
  \<^verbatim>\<open>save()\<close>, which calls \<^verbatim>\<open>create\<close>.
\<close>

definition create_booking ::
  "db \<Rightarrow> date \<Rightarrow> user \<Rightarrow> uuid \<Rightarrow> booking_request \<Rightarrow> error + booking \<times> db" where
  "create_booking d today usr new_id rq =
     (case booking_validate d today (booking_to_internal_value rq) of
        Inl e \<Rightarrow> Inl e
      | Inr dat \<Rightarrow> booking_create d usr new_id dat)"

text \<open>The database after a request: a request that raised wrote nothing.\<close>

definition db_after :: "db \<Rightarrow> error + 'a \<times> db \<Rightarrow> db" where
  "db_after d r = (case r of Inl e \<Rightarrow> d | Inr (x, d') \<Rightarrow> d')"

section \<open>ReviewSerializer\<close>

text \<open>
  What a client sends for a review; \<open>rreq_guest\<close> is the value a client may put under
  the read-only key \<^verbatim>\<open>guest\<close>, \<open>rreq_booking_id\<close> the optional
  \<^verbatim>\<open>booking_id\<close>.
\<close>

record review_request =
  rreq_listing_id :: uuid
  rreq_booking_id :: "uuid option"
  rreq_rating :: int
  rreq_comment :: string
  rreq_guest :: "user option"

record review_data =
  rdata_listing_id :: uuid
  rdata_booking_id :: "uuid option"
  rdata_rating :: int
  rdata_comment :: string

text \<open>\<^verbatim>\<open>ReviewSerializer.validate_rating\<close>.\<close>

definition validate_rating :: "int \<Rightarrow> error + int" where
  "validate_rating v = (if \<not> (1 \<le> v \<and> v \<le> 5) then Inl InvalidRating else Inr v)"

text \<open>
  The field stage of \<^verbatim>\<open>ReviewSerializer\<close>: the framework runs
  \<^verbatim>\<open>validate_rating\<close> on the rating field before it calls \<^verbatim>\<open>validate\<close>,
  and drops the read-only \<^verbatim>\<open>guest\<close>.
\<close>

definition review_to_internal_value :: "review_request \<Rightarrow> error + review_data" where
  "review_to_internal_value rq =
     (case validate_rating (rreq_rating rq) of
        Inl e \<Rightarrow> Inl e
      | Inr v \<Rightarrow>
          Inr \<lparr>rdata_listing_id = rreq_listing_id rq,
               rdata_booking_id = rreq_booking_id rq,
               rdata_rating = v,
               rdata_comment = rreq_comment rq\<rparr>)"

text \<open>
  The queryset \<^verbatim>\<open>Booking.objects.filter(listing=listing, guest=guest,
  status='completed')\<close>.
\<close>

definition completed_bookings :: "db \<Rightarrow> listing \<Rightarrow> user \<Rightarrow> booking list" where
  "completed_bookings d l usr =
     filter (\<lambda>b. listing b = listing_id l \<and> guest b = usr \<and> status b = Completed) (bookings d)"

text \<open>\<^verbatim>\<open>Review.objects.filter(listing=listing, guest=guest).first()\<close>.\<close>

definition existing_review :: "db \<Rightarrow> listing \<Rightarrow> user \<Rightarrow> review option" where
  "existing_review d l usr =
     find (\<lambda>r. review_listing r = listing_id l \<and> review_guest r = usr) (reviews d)"

text \<open>
  \<^verbatim>\<open>ReviewSerializer.validate\<close>; \<open>inst\<close> is \<^verbatim>\<open>self.instance\<close>, which is
  \<^verbatim>\<open>None\<close> when a review is created.
\<close>

definition review_validate ::
  "db \<Rightarrow> user \<Rightarrow> review option \<Rightarrow> review_data \<Rightarrow> error + review_data" where
  "review_validate d usr inst dat =
     (case Listing_objects_get d (rdata_listing_id dat) of
        None \<Rightarrow> Inl NotFound
      | Some l \<Rightarrow>
          if completed_bookings d l usr = [] then Inl NotEligible
          else if existing_review d l usr \<noteq> None \<and> inst = None then Inl DuplicateReview
          else Inr dat)"

text \<open>
  \<^verbatim>\<open>ReviewSerializer.create\<close>. A UUID object is always true, so
  \<^verbatim>\<open>if booking_id:\<close> asks whether the key was sent; a
  \<^verbatim>\<open>Booking.DoesNotExist\<close> is caught and passed over.
\<close>

definition review_create :: "db \<Rightarrow> user \<Rightarrow> uuid \<Rightarrow> review_data \<Rightarrow> error + review \<times> db" where
  "review_create d usr new_id dat =
     (case Listing_objects_get d (rdata_listing_id dat) of
        None \<Rightarrow> Inl DoesNotExist
      | Some l \<Rightarrow>
          let attached =
                (case rdata_booking_id dat of
                   None \<Rightarrow> None
                 | Some bid \<Rightarrow>
                     (case Booking_objects_get d bid of
                        None \<Rightarrow> None
                      | Some b \<Rightarrow> Some (booking_id b)))
          in Review_objects_create
               \<lparr>review_id = new_id,
                review_listing = listing_id l,
                review_guest = usr,
                review_booking = attached,
                rating = rdata_rating dat,
                comment = rdata_comment dat\<rparr>
               d)"

text \<open>A review-creation request: the field stage, \<^verbatim>\<open>validate\<close>, then \<^verbatim>\<open>create\<close>.\<close>

definition create_review ::
  "db \<Rightarrow> user \<Rightarrow> uuid \<Rightarrow> review_request \<Rightarrow> error + review \<times> db" where
  "create_review d usr new_id rq =
     (case review_to_internal_value rq of
        Inl e \<Rightarrow> Inl e
      | Inr dat \<Rightarrow>
          (case review_validate d usr None dat of
             Inl e \<Rightarrow> Inl e
           | Inr dat' \<Rightarrow> review_create d usr new_id dat'))"

section \<open>The seed command\<close>

text \<open>
  One round of the loop of \<^verbatim>\<open>Command.create_bookings\<close> draws a listing, a guest,
  \<^verbatim>\<open>randint(0, 180)\<close>, \<^verbatim>\<open>randint(1, 14)\<close>, a number of guests and a status;
  the draws of a round are an argument, and \<open>draw_ok\<close> says which values the random
  calls can return.
\<close>

record draw =
  draw_listing :: listing
  draw_guest :: user
  draw_days_ago :: int
  draw_duration :: int
  draw_num_guests :: int
  draw_past_status :: status
  draw_future_status :: status
  draw_id :: uuid




section \<open>Invariants\<close>

text \<open>
  A booking holds its dates while its status is pending or confirmed; two bookings
  overlap when their half-open intervals \<open>[check_in, check_out)\<close> meet.
\<close>

definition active :: "booking \<Rightarrow> bool" where
  "active b = (status b = Pending \<or> status b = Confirmed)"

definition intervals_overlap :: "booking \<Rightarrow> booking \<Rightarrow> bool" where
  "intervals_overlap a b =
     (check_in_date a < check_out_date b \<and> check_in_date b < check_out_date a)"

definition conflict :: "booking \<Rightarrow> booking \<Rightarrow> bool" where
  "conflict a b = (listing a = listing b \<and> active a \<and> active b \<and> intervals_overlap a b)"

text \<open>No two rows of the table are active bookings of one listing with overlapping dates.\<close>

fun no_double_booking :: "booking list \<Rightarrow> bool" where
  "no_double_booking [] = True"
| "no_double_booking (b # bs) = (list_all (\<lambda>e. \<not> conflict e b) bs \<and> no_double_booking bs)"

text \<open>At most one review for each pair of guest and listing.\<close>

definition one_review_per_pair :: "review list \<Rightarrow> bool" where
  "one_review_per_pair rs = distinct (map (\<lambda>r. (review_guest r, review_listing r)) rs)"

section \<open>A scenario\<close>

text \<open>
  One listing at 100 a night for up to four guests, hosted by user 1. Days are counted
  from the day before the first stay: booking A is for days 1 to 5, B for days 3 to 6, C
  for days 5 to 7, each for two guests.
\<close>

definition listing0 :: listing where
  "listing0 = \<lparr>listing_id = 7, host = 1, price_per_night = 100, max_guests = 4, available = True\<rparr>"

definition db0 :: db where
  "db0 = \<lparr>listings = [listing0], bookings = [], reviews = []\<rparr>"

definition request :: "date \<Rightarrow> date \<Rightarrow> booking_request" where
  "request a b =
     \<lparr>req_listing_id = 7, req_check_in_date = a, req_check_out_date = b,
      req_number_of_guests = 2, req_status = None, req_total_price = None, req_guest = None\<rparr>"

definition booking_A :: booking where
  "booking_A =
     \<lparr>booking_id = 11, listing = 7, guest = 2, check_in_date = 1, check_out_date = 5,
      number_of_guests = 2, total_price = 400, status = Pending\<rparr>"

definition db_A :: db where
  "db_A = \<lparr>listings = [listing0], bookings = [booking_A], reviews = []\<rparr>"

text \<open>A round of the seed command that draws today as the start and one night.\<close>

definition draw0 :: draw where
  "draw0 =
     \<lparr>draw_listing = listing0, draw_guest = 2, draw_days_ago = 0, draw_duration = 1,
      draw_num_guests = 1, draw_past_status = Completed, draw_future_status = Pending,
      draw_id = 21\<rparr>"

text \<open>
  The same listing once guest 2 has stayed (booking A completed), and once guest 2 has
  also reviewed it; a review request for the listing with a given booking reference and
  rating.
\<close>

definition db_stayed :: db where
  "db_stayed = \<lparr>listings = [listing0], bookings = [booking_A\<lparr>status := Completed\<rparr>], reviews = []\<rparr>"

definition review0 :: review where
  "review0 =
     \<lparr>review_id = 31, review_listing = 7, review_guest = 2, review_booking = Some 11,
      rating = 5, comment = ''Great place to stay!''\<rparr>"

definition db_reviewed :: db where
  "db_reviewed =
     \<lparr>listings = [listing0], bookings = [booking_A\<lparr>status := Completed\<rparr>], reviews = [review0]\<rparr>"

definition review_request :: "uuid option \<Rightarrow> int \<Rightarrow> review_request" where
  "review_request bid n =
     \<lparr>rreq_listing_id = 7, rreq_booking_id = bid, rreq_rating = n,
      rreq_comment = ''Great place to stay!'', rreq_guest = None\<rparr>"

text \<open>
  The listing with a second booking, of guest 3 for days 5 to 7, after the completed one
  of guest 2.
\<close>

definition booking_B :: booking where
  "booking_B =
     \<lparr>booking_id = 12, listing = 7, guest = 3, check_in_date = 5, check_out_date = 7,
      number_of_guests = 2, total_price = 200, status = Pending\<rparr>"

definition db_two :: db where
  "db_two =
     \<lparr>listings = [listing0], bookings = [booking_A\<lparr>status := Completed\<rparr>, booking_B],
      reviews = []\<rparr>"

section \<open>Auxiliary facts\<close>

lemma conflict_sym: "conflict a b = conflict b a"
  by (auto simp: conflict_def intervals_overlap_def)

lemma no_double_booking_snoc:
  "no_double_booking (bs @ [b]) = (no_double_booking bs \<and> list_all (\<lambda>e. \<not> conflict e b) bs)"
  by (induction bs) (auto simp: conflict_sym)

lemma find_key: "find P xs = Some x \<Longrightarrow> P x \<and> x \<in> set xs"
  by (induction xs) (auto split: if_splits)

lemma Listing_objects_get_Some:
  "Listing_objects_get d lid = Some l \<Longrightarrow> listing_id l = lid \<and> l \<in> set (listings d)"
  unfolding Listing_objects_get_def by (drule find_key) simp

lemma booking_to_internal_value_sel:
  "data_listing_id (booking_to_internal_value rq) = req_listing_id rq"
  "data_check_in_date (booking_to_internal_value rq) = req_check_in_date rq"
  "data_check_out_date (booking_to_internal_value rq) = req_check_out_date rq"
  "data_number_of_guests (booking_to_internal_value rq) = req_number_of_guests rq"
  "data_status (booking_to_internal_value rq) = req_status rq"
  by (simp_all add: booking_to_internal_value_def)

lemma booking_validate_Inr:
  assumes "booking_validate d today dat = Inr dat'"
  shows "dat' = dat \<and> data_check_in_date dat < data_check_out_date dat
         \<and> today \<le> data_check_in_date dat
         \<and> (\<exists>l. Listing_objects_get d (data_listing_id dat) = Some l
                \<and> data_number_of_guests dat \<le> max_guests l \<and> available l
                \<and> overlapping_bookings d l dat = [])"
  using assms unfolding booking_validate_def
  by (auto split: if_splits option.splits)

lemma create_booking_Inr:
  assumes "create_booking d today usr new_id rq = Inr (b, d')"
  shows "\<exists>l. Listing_objects_get d (req_listing_id rq) = Some l
           \<and> req_check_in_date rq < req_check_out_date rq
           \<and> today \<le> req_check_in_date rq
           \<and> req_number_of_guests rq \<le> max_guests l \<and> available l
           \<and> overlapping_bookings d l (booking_to_internal_value rq) = []
           \<and> b = \<lparr>booking_id = new_id, listing = listing_id l, guest = usr,
                  check_in_date = req_check_in_date rq,
                  check_out_date = req_check_out_date rq,
                  number_of_guests = req_number_of_guests rq,
                  total_price =
                    price_per_night l * of_int (req_check_out_date rq - req_check_in_date rq),
                  status = (case req_status rq of None \<Rightarrow> default_status | Some s \<Rightarrow> s)\<rparr>
           \<and> d' = d\<lparr>bookings := bookings d @ [b]\<rparr>"
proof -
  from assms obtain dat where v: "booking_validate d today (booking_to_internal_value rq) = Inr dat"
    and c: "booking_create d usr new_id dat = Inr (b, d')"
    unfolding create_booking_def by (auto split: sum.splits)
  from booking_validate_Inr [OF v] obtain l where
    dat: "dat = booking_to_internal_value rq"
    and l: "Listing_objects_get d (req_listing_id rq) = Some l"
    and rest: "req_check_in_date rq < req_check_out_date rq" "today \<le> req_check_in_date rq"
      "req_number_of_guests rq \<le> max_guests l" "available l"
      "overlapping_bookings d l (booking_to_internal_value rq) = []"
    by (auto simp: booking_to_internal_value_def)
  from c dat l have "b = \<lparr>booking_id = new_id, listing = listing_id l, guest = usr,
                  check_in_date = req_check_in_date rq,
                  check_out_date = req_check_out_date rq,
                  number_of_guests = req_number_of_guests rq,
                  total_price =
                    price_per_night l * of_int (req_check_out_date rq - req_check_in_date rq),
                  status = (case req_status rq of None \<Rightarrow> default_status | Some s \<Rightarrow> s)\<rparr>"
    and "d' = d\<lparr>bookings := bookings d @ [b]\<rparr>"
    by (auto simp: booking_create_def Booking_objects_create_def booking_to_internal_value_def
        Let_def)
  with l rest show ?thesis by blast
qed

lemma overlapping_bookings_empty:
  "overlapping_bookings d l dat = [] \<longleftrightarrow>
     (\<forall>e \<in> set (bookings d).
        \<not> (listing e = listing_id l \<and> active e
           \<and> check_in_date e < data_check_out_date dat
           \<and> data_check_in_date dat < check_out_date e))"
  unfolding overlapping_bookings_def active_def filter_empty_conv by auto

lemma Booking_objects_get_Some:
  "Booking_objects_get d bid = Some b \<Longrightarrow> booking_id b = bid \<and> b \<in> set (bookings d)"
  unfolding Booking_objects_get_def by (drule find_key) simp

lemma completed_bookings_empty:
  "completed_bookings d l usr = [] \<longleftrightarrow>
     \<not> (\<exists>b \<in> set (bookings d). listing b = listing_id l \<and> guest b = usr \<and> status b = Completed)"
  unfolding completed_bookings_def filter_empty_conv by auto

lemma existing_review_None:
  "existing_review d l usr = None \<longleftrightarrow>
     \<not> (\<exists>r \<in> set (reviews d). review_listing r = listing_id l \<and> review_guest r = usr)"
  unfolding existing_review_def find_None_iff by auto

lemma create_review_Inr:
  assumes "create_review d usr new_id rq = Inr (r, d')"
  shows "1 \<le> rreq_rating rq \<and> rreq_rating rq \<le> 5
         \<and> (\<exists>l. Listing_objects_get d (rreq_listing_id rq) = Some l
                \<and> completed_bookings d l usr \<noteq> []
                \<and> existing_review d l usr = None
                \<and> r = \<lparr>review_id = new_id, review_listing = listing_id l, review_guest = usr,
                       review_booking =
                         (case rreq_booking_id rq of
                            None \<Rightarrow> None
                          | Some bid \<Rightarrow>
                              (case Booking_objects_get d bid of
                                 None \<Rightarrow> None
                               | Some b \<Rightarrow> Some (booking_id b))),
                       rating = rreq_rating rq, comment = rreq_comment rq\<rparr>
                \<and> d' = d\<lparr>reviews := reviews d @ [r]\<rparr>)"
  using assms
  unfolding create_review_def review_to_internal_value_def validate_rating_def
    review_validate_def review_create_def Review_objects_create_def
  by (auto split: if_splits option.splits sum.splits simp: Let_def)

lemma Listing_objects_get_None:
  "Listing_objects_get d lid = None \<longleftrightarrow> \<not> (\<exists>l \<in> set (listings d). listing_id l = lid)"
  unfolding Listing_objects_get_def find_None_iff by auto

lemma Booking_objects_get_None:
  "Booking_objects_get d bid = None \<longleftrightarrow> \<not> (\<exists>b \<in> set (bookings d). booking_id b = bid)"
  unfolding Booking_objects_get_def find_None_iff by auto

text \<open>
  The outcome of a review-creation request that is rejected, by the first check that
  fails.
\<close>

lemma create_review_rejected:
  assumes "\<not> (1 \<le> rreq_rating rq \<and> rreq_rating rq \<le> 5)
           \<or> \<not> (\<exists>l \<in> set (listings d). listing_id l = rreq_listing_id rq)
           \<or> \<not> (\<exists>b \<in> set (bookings d).
                   listing b = rreq_listing_id rq \<and> guest b = usr \<and> status b = Completed)
           \<or> (\<exists>r \<in> set (reviews d). review_listing r = rreq_listing_id rq \<and> review_guest r = usr)"
  shows "create_review d usr new_id rq =
           Inl (if \<not> (1 \<le> rreq_rating rq \<and> rreq_rating rq \<le> 5) then InvalidRating
                else if \<not> (\<exists>l \<in> set (listings d). listing_id l = rreq_listing_id rq)
                then NotFound
                else if \<not> (\<exists>b \<in> set (bookings d).
                    listing b = rreq_listing_id rq \<and> guest b = usr \<and> status b = Completed)
                then NotEligible
                else DuplicateReview)"
proof (cases "1 \<le> rreq_rating rq \<and> rreq_rating rq \<le> 5")
  case False
  then show ?thesis
    by (simp add: create_review_def review_to_internal_value_def validate_rating_def)
next
  case rating: True
  let ?dat = "\<lparr>rdata_listing_id = rreq_listing_id rq, rdata_booking_id = rreq_booking_id rq,
      rdata_rating = rreq_rating rq, rdata_comment = rreq_comment rq\<rparr>"
  from rating have r: "create_review d usr new_id rq =
      (case review_validate d usr None ?dat of
         Inl e \<Rightarrow> Inl e
       | Inr dat' \<Rightarrow> review_create d usr new_id dat')"
    by (simp add: create_review_def review_to_internal_value_def validate_rating_def)
  show ?thesis
  proof (cases "Listing_objects_get d (rreq_listing_id rq)")
    case None
    then have "\<not> (\<exists>l \<in> set (listings d). listing_id l = rreq_listing_id rq)"
      by (simp add: Listing_objects_get_None)
    with None rating show ?thesis
      unfolding r by (simp add: review_validate_def)
  next
    case (Some l)
    from Listing_objects_get_Some [OF Some]
    have lid: "listing_id l = rreq_listing_id rq" and ex: "\<exists>l \<in> set (listings d). listing_id l = rreq_listing_id rq"
      by auto
    have cb: "completed_bookings d l usr = [] \<longleftrightarrow>
        \<not> (\<exists>b \<in> set (bookings d).
              listing b = rreq_listing_id rq \<and> guest b = usr \<and> status b = Completed)"
      unfolding completed_bookings_empty lid by simp
    have er: "existing_review d l usr = None \<longleftrightarrow>
        \<not> (\<exists>r \<in> set (reviews d). review_listing r = rreq_listing_id rq \<and> review_guest r = usr)"
      unfolding existing_review_None lid by simp
    from assms rating ex Some cb er show ?thesis
      unfolding r by (auto simp: review_validate_def)
  qed
qed

lemmas booking_defs =
  create_booking_def booking_validate_def booking_to_internal_value_def booking_create_def
  Listing_objects_get_def Booking_objects_create_def overlapping_bookings_def
  default_status_def db_after_def

lemmas review_defs =
  create_review_def review_to_internal_value_def validate_rating_def review_validate_def
  review_create_def Review_objects_create_def Listing_objects_get_def Booking_objects_get_def
  completed_bookings_def existing_review_def db_after_def Let_def

lemmas scenario_defs =
  listing0_def db0_def db_A_def booking_A_def request_def draw0_def
  db_stayed_def review0_def db_reviewed_def review_request_def booking_B_def db_two_def

section \<open>The claims\<close>

text \<open>
  The serializer's path. If no two active bookings of one listing overlap before a
  serializer-validated creation request, none do after it: a rejected request leaves
  the database as it was, and an accepted one appends one booking, which is in conflict
  with no booking of the table. This is for requests that run one after another.
\<close>

lemma create_booking_keeps_no_double_booking:
  assumes "no_double_booking (bookings d)"
  shows "no_double_booking (bookings (db_after d (create_booking d today usr new_id rq)))
         \<and> (\<forall>e. create_booking d today usr new_id rq = Inl e \<longrightarrow>
               db_after d (create_booking d today usr new_id rq) = d)
         \<and> (\<forall>b d'. create_booking d today usr new_id rq = Inr (b, d') \<longrightarrow>
               bookings d' = bookings d @ [b] \<and> list_all (\<lambda>e. \<not> conflict e b) (bookings d))"
proof (cases "create_booking d today usr new_id rq")
  case (Inl e)
  with assms show ?thesis by (simp add: db_after_def)
next
  case (Inr p)
  obtain b d' where p: "p = (b, d')" by (cases p)
  from create_booking_Inr [OF Inr [unfolded p]] obtain l where
    free: "overlapping_bookings d l (booking_to_internal_value rq) = []"
    and b: "listing b = listing_id l" "check_in_date b = req_check_in_date rq"
      "check_out_date b = req_check_out_date rq"
    and d': "d' = d\<lparr>bookings := bookings d @ [b]\<rparr>"
    by auto
  have new: "list_all (\<lambda>e. \<not> conflict e b) (bookings d)"
    using free b unfolding overlapping_bookings_empty list_all_iff
    by (auto simp: conflict_def intervals_overlap_def booking_to_internal_value_def)
  with assms d' have "no_double_booking (bookings d')"
    by (simp add: no_double_booking_snoc)
  with Inr p new d' show ?thesis by (simp add: db_after_def)
qed

lemma create_booking_keeps_no_double_booking_example:
  "no_double_booking (bookings db_A)
   \<and> bookings (db_after db_A (create_booking db_A 0 3 12 (request 5 7))) =
       [booking_A, booking_B]
   \<and> no_double_booking (bookings (db_after db_A (create_booking db_A 0 3 12 (request 5 7))))
   \<and> db_after db_A (create_booking db_A 0 3 12 (request 3 6)) = db_A"
proof -
  have h: "no_double_booking (bookings db_A)"
    by (simp add: scenario_defs)
  have "bookings (db_after db_A (create_booking db_A 0 3 12 (request 5 7))) =
       [booking_A, booking_B]"
    by (simp add: booking_defs scenario_defs)
  moreover have "db_after db_A (create_booking db_A 0 3 12 (request 3 6)) = db_A"
    by (simp add: booking_defs scenario_defs)
  ultimately show ?thesis
    using h create_booking_keeps_no_double_booking [OF h, of 0 3 12 "request 5 7"]
    by simp
qed


text \<open>
  C2. A booking-creation request is checked in this order, and the first check that
  fails decides the error: check-out after check-in (else \<open>InvalidDateRange\<close>),
  check-in not before today (else \<open>PastDate\<close>), the listing exists (else
  \<open>NotFound\<close>), the number of guests is within the listing's maximum (else
  \<open>CapacityExceeded\<close>), the listing is available (else \<open>ListingUnavailable\<close>), no
  pending or confirmed booking of the listing overlaps (else \<open>DateConflict\<close>); a
  request that passes all six is accepted. A request with check-out on or before check-in
  fails with \<open>InvalidDateRange\<close> whatever its other inputs are.
\<close>

theorem create_booking_validation_order:
  "(req_check_out_date rq \<le> req_check_in_date rq \<longrightarrow>
      create_booking d today usr new_id rq = Inl InvalidDateRange)
   \<and> (req_check_in_date rq < req_check_out_date rq \<and> req_check_in_date rq < today \<longrightarrow>
      create_booking d today usr new_id rq = Inl PastDate)
   \<and> (req_check_in_date rq < req_check_out_date rq \<and> today \<le> req_check_in_date rq
      \<and> Listing_objects_get d (req_listing_id rq) = None \<longrightarrow>
      create_booking d today usr new_id rq = Inl NotFound)
   \<and> (\<forall>l. req_check_in_date rq < req_check_out_date rq \<and> today \<le> req_check_in_date rq
      \<and> Listing_objects_get d (req_listing_id rq) = Some l
      \<and> max_guests l < req_number_of_guests rq \<longrightarrow>
      create_booking d today usr new_id rq =
        Inl (CapacityExceeded (req_number_of_guests rq) (max_guests l)))
   \<and> (\<forall>l. req_check_in_date rq < req_check_out_date rq \<and> today \<le> req_check_in_date rq
      \<and> Listing_objects_get d (req_listing_id rq) = Some l
      \<and> req_number_of_guests rq \<le> max_guests l \<and> \<not> available l \<longrightarrow>
      create_booking d today usr new_id rq = Inl ListingUnavailable)
   \<and> (\<forall>l. req_check_in_date rq < req_check_out_date rq \<and> today \<le> req_check_in_date rq
      \<and> Listing_objects_get d (req_listing_id rq) = Some l
      \<and> req_number_of_guests rq \<le> max_guests l \<and> available l
      \<and> (\<exists>e \<in> set (bookings d). listing e = listing_id l \<and> active e
            \<and> check_in_date e < req_check_out_date rq
            \<and> req_check_in_date rq < check_out_date e) \<longrightarrow>
      create_booking d today usr new_id rq = Inl DateConflict)
   \<and> (\<forall>l. req_check_in_date rq < req_check_out_date rq \<and> today \<le> req_check_in_date rq
      \<and> Listing_objects_get d (req_listing_id rq) = Some l
      \<and> req_number_of_guests rq \<le> max_guests l \<and> available l
      \<and> \<not> (\<exists>e \<in> set (bookings d). listing e = listing_id l \<and> active e
            \<and> check_in_date e < req_check_out_date rq
            \<and> req_check_in_date rq < check_out_date e) \<longrightarrow>
      (\<exists>b d'. create_booking d today usr new_id rq = Inr (b, d')))"
proof -
  have ov: "overlapping_bookings d l (booking_to_internal_value rq) = [] \<longleftrightarrow>
      \<not> (\<exists>e \<in> set (bookings d). listing e = listing_id l \<and> active e
            \<and> check_in_date e < req_check_out_date rq
            \<and> req_check_in_date rq < check_out_date e)" for l
    unfolding overlapping_bookings_empty by (simp add: booking_to_internal_value_def)
  have v: "booking_validate d today (booking_to_internal_value rq) =
      (if req_check_out_date rq \<le> req_check_in_date rq then Inl InvalidDateRange
       else if req_check_in_date rq < today then Inl PastDate
       else case Listing_objects_get d (req_listing_id rq) of
         None \<Rightarrow> Inl NotFound
       | Some l \<Rightarrow>
           if req_number_of_guests rq > max_guests l
           then Inl (CapacityExceeded (req_number_of_guests rq) (max_guests l))
           else if \<not> available l then Inl ListingUnavailable
           else if overlapping_bookings d l (booking_to_internal_value rq) \<noteq> []
           then Inl DateConflict
           else Inr (booking_to_internal_value rq))"
    unfolding booking_validate_def
    by (simp add: booking_to_internal_value_sel split: option.splits)
  have c: "Listing_objects_get d (req_listing_id rq) = Some l \<Longrightarrow>
      \<exists>b d'. booking_create d usr new_id (booking_to_internal_value rq) = Inr (b, d')" for l
    by (simp add: booking_create_def Booking_objects_create_def booking_to_internal_value_def
        Let_def)
  show ?thesis
    unfolding create_booking_def v using c ov by (auto split: option.splits)
qed

theorem create_booking_validation_order_witness:
  "create_booking db_A 0 3 12 ((request 5 5)\<lparr>req_listing_id := 99\<rparr>) = Inl InvalidDateRange
   \<and> create_booking db_A 3 3 12 (request 1 5) = Inl PastDate
   \<and> create_booking db_A 0 3 12 ((request 3 6)\<lparr>req_listing_id := 99\<rparr>) = Inl NotFound
   \<and> create_booking db_A 0 3 12 ((request 3 6)\<lparr>req_number_of_guests := 5\<rparr>) =
       Inl (CapacityExceeded 5 4)
   \<and> create_booking (db_A\<lparr>listings := [listing0\<lparr>available := False\<rparr>]\<rparr>) 0 3 12 (request 3 6) =
       Inl ListingUnavailable
   \<and> create_booking db_A 0 3 12 (request 3 6) = Inl DateConflict
   \<and> (\<exists>b d'. create_booking db_A 0 3 12 (request 5 7) = Inr (b, d'))"
  using
    create_booking_validation_order
      [of "(request 5 5)\<lparr>req_listing_id := 99\<rparr>" db_A 0 3 12]
    create_booking_validation_order [of "request 1 5" db_A 3 3 12]
    create_booking_validation_order
      [of "(request 3 6)\<lparr>req_listing_id := 99\<rparr>" db_A 0 3 12]
    create_booking_validation_order
      [of "(request 3 6)\<lparr>req_number_of_guests := 5\<rparr>" db_A 0 3 12]
    create_booking_validation_order
      [of "request 3 6" "db_A\<lparr>listings := [listing0\<lparr>available := False\<rparr>]\<rparr>" 0 3 12]
    create_booking_validation_order [of "request 3 6" db_A 0 3 12]
    create_booking_validation_order [of "request 5 7" db_A 0 3 12]
  by (simp add: scenario_defs Listing_objects_get_def active_def)

text \<open>
  C3. The claim says a request whose guest is the listing's host fails with
  \<open>InvalidGuest\<close> before the overlap check. The serializer has no such check: here
  user 1, the host of the listing, books it, and the booking is created with the host as
  its guest.
\<close>

theorem host_books_own_listing:
  "host listing0 = 1
   \<and> create_booking db0 0 1 11 (request 1 5) =
       Inr (booking_A\<lparr>guest := 1\<rparr>, db0\<lparr>bookings := [booking_A\<lparr>guest := 1\<rparr>]\<rparr>)
   \<and> map guest (bookings (db_after db0 (create_booking db0 0 1 11 (request 1 5)))) = [1]"
  by (simp add: booking_defs scenario_defs)

text \<open>
  C4. The total price of a created booking is the listing's price per night times the
  number of days from check-in to check-out, and a \<open>total_price\<close> sent by the client
  changes nothing: the request has the same outcome with any value there.
\<close>

theorem total_price_is_price_times_nights:
  "create_booking d today usr new_id (rq\<lparr>req_total_price := x\<rparr>) =
     create_booking d today usr new_id rq
   \<and> (\<forall>b d'. create_booking d today usr new_id rq = Inr (b, d') \<longrightarrow>
        (\<exists>l. Listing_objects_get d (req_listing_id rq) = Some l
             \<and> listing b = listing_id l
             \<and> total_price b =
                 price_per_night l * of_int (req_check_out_date rq - req_check_in_date rq)))"
proof -
  have "booking_to_internal_value (rq\<lparr>req_total_price := x\<rparr>) = booking_to_internal_value rq"
    by (simp add: booking_to_internal_value_def)
  then have "create_booking d today usr new_id (rq\<lparr>req_total_price := x\<rparr>) =
      create_booking d today usr new_id rq"
    by (simp add: create_booking_def)
  moreover have "\<exists>l. Listing_objects_get d (req_listing_id rq) = Some l
             \<and> listing b = listing_id l
             \<and> total_price b =
                 price_per_night l * of_int (req_check_out_date rq - req_check_in_date rq)"
    if "create_booking d today usr new_id rq = Inr (b, d')" for b d'
    using create_booking_Inr [OF that] by auto
  ultimately show ?thesis by blast
qed

theorem total_price_is_price_times_nights_witness:
  "create_booking db0 0 2 11 ((request 1 5)\<lparr>req_total_price := Some 1\<rparr>) =
     create_booking db0 0 2 11 (request 1 5)
   \<and> create_booking db0 0 2 11 (request 1 5) = Inr (booking_A, db_A)
   \<and> total_price booking_A = 100 * of_int (5 - 1)"
proof -
  have "create_booking db0 0 2 11 (request 1 5) = Inr (booking_A, db_A)"
    by (simp add: booking_defs scenario_defs)
  with total_price_is_price_times_nights
    [where d = db0 and today = 0 and usr = 2 and new_id = 11 and rq = "request 1 5"
       and x = "Some 1"]
  show ?thesis by (simp add: scenario_defs Listing_objects_get_def)
qed

text \<open>
  C5. Once the earlier checks have passed, a request is rejected with
  \<open>DateConflict\<close> exactly when some pending or confirmed booking of the listing starts
  before the new check-out and ends after the new check-in. So when every such booking
  ends on or before the new check-in or starts on or after the new check-out (touching
  at an endpoint included), the request is accepted.
\<close>

theorem date_conflict_is_half_open_overlap:
  assumes "req_check_in_date rq < req_check_out_date rq"
    and "today \<le> req_check_in_date rq"
    and "Listing_objects_get d (req_listing_id rq) = Some l"
    and "req_number_of_guests rq \<le> max_guests l"
    and "available l"
  shows "(create_booking d today usr new_id rq = Inl DateConflict \<longleftrightarrow>
            (\<exists>e \<in> set (bookings d). listing e = req_listing_id rq
               \<and> (status e = Pending \<or> status e = Confirmed)
               \<and> check_in_date e < req_check_out_date rq
               \<and> req_check_in_date rq < check_out_date e))
         \<and> ((\<forall>e \<in> set (bookings d). listing e = req_listing_id rq
               \<and> (status e = Pending \<or> status e = Confirmed) \<longrightarrow>
               check_out_date e \<le> req_check_in_date rq
               \<or> req_check_out_date rq \<le> check_in_date e) \<longrightarrow>
            (\<exists>b d'. create_booking d today usr new_id rq = Inr (b, d')))"
proof -
  let ?clash = "\<exists>e \<in> set (bookings d). listing e = req_listing_id rq
               \<and> (status e = Pending \<or> status e = Confirmed)
               \<and> check_in_date e < req_check_out_date rq
               \<and> req_check_in_date rq < check_out_date e"
  from assms(3) have lid: "listing_id l = req_listing_id rq"
    by (simp add: Listing_objects_get_Some)
  have ov: "overlapping_bookings d l (booking_to_internal_value rq) = [] \<longleftrightarrow> \<not> ?clash"
    unfolding overlapping_bookings_empty active_def
    by (simp add: booking_to_internal_value_sel lid)
  have v: "booking_validate d today (booking_to_internal_value rq) =
      (if ?clash then Inl DateConflict else Inr (booking_to_internal_value rq))"
    using assms ov unfolding booking_validate_def
    by (simp add: booking_to_internal_value_sel)
  have c: "\<exists>b d'. booking_create d usr new_id (booking_to_internal_value rq) = Inr (b, d')"
    using assms(3)
    by (simp add: booking_create_def Booking_objects_create_def booking_to_internal_value_sel
        Let_def)
  have 1: "create_booking d today usr new_id rq = Inl DateConflict \<longleftrightarrow> ?clash"
    unfolding create_booking_def v using c by auto
  have 2: "\<exists>b d'. create_booking d today usr new_id rq = Inr (b, d')" if "\<not> ?clash"
    unfolding create_booking_def v using c that by auto
  have 3: "\<not> ?clash"
    if "\<forall>e \<in> set (bookings d). listing e = req_listing_id rq
               \<and> (status e = Pending \<or> status e = Confirmed) \<longrightarrow>
               check_out_date e \<le> req_check_in_date rq
               \<or> req_check_out_date rq \<le> check_in_date e"
    using that by fastforce
  from 1 2 3 show ?thesis by blast
qed

theorem date_conflict_is_half_open_overlap_witness:
  "create_booking db_A 0 3 12 (request 3 6) = Inl DateConflict
   \<and> (\<exists>b d'. create_booking db_A 0 3 12 (request 5 7) = Inr (b, d'))
   \<and> (\<exists>b d'. create_booking db_A 0 3 12 (request 0 1) = Inr (b, d'))"
  using
    date_conflict_is_half_open_overlap
      [where rq = "request 3 6" and today = 0 and d = db_A and l = listing0 and usr = 3
         and new_id = 12]
    date_conflict_is_half_open_overlap
      [where rq = "request 5 7" and today = 0 and d = db_A and l = listing0 and usr = 3
         and new_id = 12]
    date_conflict_is_half_open_overlap
      [where rq = "request 0 1" and today = 0 and d = db_A and l = listing0 and usr = 3
         and new_id = 12]
  by (simp add: scenario_defs Listing_objects_get_def)




text \<open>
  C7, as stated, fails: guest 2 has no completed booking of listing 7, and a review
  request of guest 2 for it with rating 0 fails with \<open>InvalidRating\<close>, not with
  \<open>NotEligible\<close>, the rating being checked first.
\<close>

theorem review_without_stay_counterexample:
  "\<not> (\<exists>b \<in> set (bookings db_A). listing b = 7 \<and> guest b = 2 \<and> status b = Completed)
   \<and> (\<exists>l \<in> set (listings db_A). listing_id l = 7)
   \<and> rreq_listing_id (review_request None 0) = 7
   \<and> create_review db_A 2 31 (review_request None 0) = Inl InvalidRating"
  by (simp add: review_defs scenario_defs)

text \<open>
  C7 (amended). When the guest has no completed booking of the listing, every
  review-creation request of that guest for that listing fails and writes nothing, so
  no review is created. The error is \<open>InvalidRating\<close> when the rating is not between 1
  and 5, otherwise \<open>NotFound\<close> when no listing has the requested id, otherwise
  \<open>NotEligible\<close>.
\<close>

theorem review_requires_completed_booking:
  assumes "\<not> (\<exists>b \<in> set (bookings d).
              listing b = rreq_listing_id rq \<and> guest b = usr \<and> status b = Completed)"
  shows "create_review d usr new_id rq =
           Inl (if \<not> (1 \<le> rreq_rating rq \<and> rreq_rating rq \<le> 5) then InvalidRating
                else if \<not> (\<exists>l \<in> set (listings d). listing_id l = rreq_listing_id rq)
                then NotFound
                else NotEligible)
         \<and> db_after d (create_review d usr new_id rq) = d"
proof -
  from assms have "create_review d usr new_id rq =
           Inl (if \<not> (1 \<le> rreq_rating rq \<and> rreq_rating rq \<le> 5) then InvalidRating
                else if \<not> (\<exists>l \<in> set (listings d). listing_id l = rreq_listing_id rq)
                then NotFound
                else NotEligible)"
    by (subst create_review_rejected) auto
  then show ?thesis by (simp add: db_after_def)
qed

theorem review_requires_completed_booking_witness:
  "\<not> (\<exists>b \<in> set (bookings db_A). listing b = 7 \<and> guest b = 2 \<and> status b = Completed)
   \<and> create_review db_A 2 31 (review_request None 5) = Inl NotEligible
   \<and> create_review db_A 2 31 (review_request None 0) = Inl InvalidRating
   \<and> create_review db_A 2 31 ((review_request None 5)\<lparr>rreq_listing_id := 99\<rparr>) = Inl NotFound
   \<and> db_after db_A (create_review db_A 2 31 (review_request None 5)) = db_A"
  using
    review_requires_completed_booking
      [where d = db_A and usr = 2 and new_id = 31 and rq = "review_request None 5"]
    review_requires_completed_booking
      [where d = db_A and usr = 2 and new_id = 31 and rq = "review_request None 0"]
    review_requires_completed_booking
      [where d = db_A and usr = 2 and new_id = 31
         and rq = "(review_request None 5)\<lparr>rreq_listing_id := 99\<rparr>"]
  by (auto simp: scenario_defs)

text \<open>
  C8, as stated, fails: guest 2 has reviewed the listing, and a further request of
  guest 2 for it with rating 0 fails with \<open>InvalidRating\<close>, the rating being checked
  first.
\<close>

theorem second_review_counterexample:
  "(\<exists>r \<in> set (reviews db_reviewed). review_listing r = 7 \<and> review_guest r = 2)
   \<and> rreq_listing_id (review_request None 0) = 7
   \<and> create_review db_reviewed 2 32 (review_request None 0) = Inl InvalidRating"
  by (simp add: review_defs scenario_defs)

text \<open>
  C8 (amended). When the pair of guest and listing already has a review, every further
  review-creation request of the pair fails and writes nothing. The error is
  \<open>InvalidRating\<close> when the rating is not between 1 and 5, otherwise \<open>NotFound\<close>
  when no listing has the requested id, otherwise \<open>NotEligible\<close> when the guest has
  no completed booking of the listing, otherwise \<open>DuplicateReview\<close>. And a
  review-creation request, accepted or rejected, never gives a pair a second review: if
  no pair has two reviews before it, none has after it.
\<close>

theorem second_review_rejected:
  "(one_review_per_pair (reviews d) \<longrightarrow>
      one_review_per_pair (reviews (db_after d (create_review d usr new_id rq))))
   \<and> ((\<exists>r \<in> set (reviews d). review_listing r = rreq_listing_id rq \<and> review_guest r = usr) \<longrightarrow>
        create_review d usr new_id rq =
          Inl (if \<not> (1 \<le> rreq_rating rq \<and> rreq_rating rq \<le> 5) then InvalidRating
               else if \<not> (\<exists>l \<in> set (listings d). listing_id l = rreq_listing_id rq)
               then NotFound
               else if \<not> (\<exists>b \<in> set (bookings d).
                   listing b = rreq_listing_id rq \<and> guest b = usr \<and> status b = Completed)
               then NotEligible
               else DuplicateReview)
        \<and> db_after d (create_review d usr new_id rq) = d)"
proof -
  have inv: "one_review_per_pair (reviews (db_after d (create_review d usr new_id rq)))"
    if h: "one_review_per_pair (reviews d)"
  proof (cases "create_review d usr new_id rq")
    case (Inl e)
    with h show ?thesis by (simp add: db_after_def)
  next
    case (Inr p)
    obtain r d' where p: "p = (r, d')" by (cases p)
    from create_review_Inr [OF Inr [unfolded p]] obtain l where
      fresh: "existing_review d l usr = None"
      and r: "review_listing r = listing_id l" "review_guest r = usr"
      and d': "d' = d\<lparr>reviews := reviews d @ [r]\<rparr>"
      by auto
    from fresh r have "(review_guest r, review_listing r) \<notin>
        set (map (\<lambda>r. (review_guest r, review_listing r)) (reviews d))"
      unfolding existing_review_None by auto
    with h d' have "one_review_per_pair (reviews d')"
      by (simp add: one_review_per_pair_def)
    with Inr p show ?thesis by (simp add: db_after_def)
  qed
  have dup: "create_review d usr new_id rq =
          Inl (if \<not> (1 \<le> rreq_rating rq \<and> rreq_rating rq \<le> 5) then InvalidRating
               else if \<not> (\<exists>l \<in> set (listings d). listing_id l = rreq_listing_id rq)
               then NotFound
               else if \<not> (\<exists>b \<in> set (bookings d).
                   listing b = rreq_listing_id rq \<and> guest b = usr \<and> status b = Completed)
               then NotEligible
               else DuplicateReview)
        \<and> db_after d (create_review d usr new_id rq) = d"
    if h: "\<exists>r \<in> set (reviews d). review_listing r = rreq_listing_id rq \<and> review_guest r = usr"
  proof -
    from h have "create_review d usr new_id rq =
          Inl (if \<not> (1 \<le> rreq_rating rq \<and> rreq_rating rq \<le> 5) then InvalidRating
               else if \<not> (\<exists>l \<in> set (listings d). listing_id l = rreq_listing_id rq)
               then NotFound
               else if \<not> (\<exists>b \<in> set (bookings d).
                   listing b = rreq_listing_id rq \<and> guest b = usr \<and> status b = Completed)
               then NotEligible
               else DuplicateReview)"
      by (intro create_review_rejected) blast
    then show ?thesis by (simp add: db_after_def)
  qed
  from inv dup show ?thesis by blast
qed

theorem second_review_rejected_witness:
  "one_review_per_pair (reviews db_reviewed)
   \<and> (\<exists>r \<in> set (reviews db_reviewed). review_listing r = 7 \<and> review_guest r = 2)
   \<and> create_review db_reviewed 2 32 (review_request None 4) = Inl DuplicateReview
   \<and> create_review db_reviewed 2 32 (review_request None 0) = Inl InvalidRating
   \<and> create_review (db_reviewed\<lparr>bookings := [booking_A]\<rparr>) 2 32 (review_request None 4) =
       Inl NotEligible
   \<and> db_after db_reviewed (create_review db_reviewed 2 32 (review_request None 4)) = db_reviewed
   \<and> one_review_per_pair
       (reviews (db_after db_reviewed (create_review db_reviewed 2 32 (review_request None 4))))"
  using
    second_review_rejected
      [where d = db_reviewed and usr = 2 and new_id = 32 and rq = "review_request None 4"]
    second_review_rejected
      [where d = db_reviewed and usr = 2 and new_id = 32 and rq = "review_request None 0"]
    second_review_rejected
      [where d = "db_reviewed\<lparr>bookings := [booking_A]\<rparr>" and usr = 2 and new_id = 32
         and rq = "review_request None 4"]
  by (auto simp: scenario_defs one_review_per_pair_def)

text \<open>
  C9. A review-creation request that passes validation and sends a \<open>booking_id\<close> is
  always accepted: it appends its review and leaves the bookings as they are. When some
  booking of the table has that id, the review refers to it; when no booking of the table
  has that id, the review refers to no booking, and no error is reported.
\<close>

theorem booking_reference_attached_or_ignored:
  assumes "review_to_internal_value rq = Inr dat"
    and "review_validate d usr None dat = Inr dat'"
    and "rreq_booking_id rq = Some bid"
  shows "\<exists>r d'. create_review d usr new_id rq = Inr (r, d')
           \<and> reviews d' = reviews d @ [r]
           \<and> bookings d' = bookings d
           \<and> review_booking r =
               (if \<exists>b \<in> set (bookings d). booking_id b = bid then Some bid else None)"
proof -
  from assms(1) have dat: "rdata_listing_id dat = rreq_listing_id rq"
    "rdata_booking_id dat = rreq_booking_id rq"
    unfolding review_to_internal_value_def validate_rating_def
    by (auto split: if_splits)
  from assms(2) obtain l where l: "Listing_objects_get d (rdata_listing_id dat) = Some l"
    and dat': "dat' = dat"
    unfolding review_validate_def by (auto split: option.splits if_splits)
  show ?thesis
  proof (cases "Booking_objects_get d bid")
    case None
    then have "\<not> (\<exists>b \<in> set (bookings d). booking_id b = bid)"
      by (simp add: Booking_objects_get_None)
    with None assms dat l dat' show ?thesis
      by (simp add: create_review_def review_create_def Review_objects_create_def Let_def)
  next
    case (Some b)
    from Booking_objects_get_Some [OF Some]
    have "booking_id b = bid" and "\<exists>b \<in> set (bookings d). booking_id b = bid"
      by auto
    with assms dat l dat' Some show ?thesis
      by (simp add: create_review_def review_create_def Review_objects_create_def Let_def)
  qed
qed

theorem booking_reference_attached_or_ignored_witness:
  "map booking_id (bookings db_two) = [11, 12]
   \<and> create_review db_two 2 31 (review_request (Some 12) 5) =
       Inr (review0\<lparr>review_booking := Some 12\<rparr>,
            db_two\<lparr>reviews := [review0\<lparr>review_booking := Some 12\<rparr>]\<rparr>)
   \<and> create_review db_two 2 31 (review_request (Some 11) 5) =
       Inr (review0, db_two\<lparr>reviews := [review0]\<rparr>)
   \<and> create_review db_two 2 31 (review_request (Some 99) 5) =
       Inr (review0\<lparr>review_booking := None\<rparr>,
            db_two\<lparr>reviews := [review0\<lparr>review_booking := None\<rparr>]\<rparr>)"
proof -
  let ?dat = "\<lambda>bid. \<lparr>rdata_listing_id = 7, rdata_booking_id = bid, rdata_rating = 5,
      rdata_comment = ''Great place to stay!''\<rparr>"
  have f: "review_to_internal_value (review_request bid 5) = Inr (?dat bid)" for bid
    by (simp add: review_to_internal_value_def validate_rating_def scenario_defs)
  have v: "review_validate db_two 2 None (?dat bid) = Inr (?dat bid)" for bid
    by (simp add: review_defs scenario_defs)
  have 3: "rreq_booking_id (review_request (Some bid) 5) = Some bid" for bid
    by (simp add: scenario_defs)
  have 4: "create_review db_two 2 31 (review_request (Some 12) 5) =
       Inr (review0\<lparr>review_booking := Some 12\<rparr>,
            db_two\<lparr>reviews := [review0\<lparr>review_booking := Some 12\<rparr>]\<rparr>)"
    by (simp add: review_defs scenario_defs)
  have 5: "create_review db_two 2 31 (review_request (Some 11) 5) =
       Inr (review0, db_two\<lparr>reviews := [review0]\<rparr>)"
    by (simp add: review_defs scenario_defs)
  have 6: "create_review db_two 2 31 (review_request (Some 99) 5) =
       Inr (review0\<lparr>review_booking := None\<rparr>,
            db_two\<lparr>reviews := [review0\<lparr>review_booking := None\<rparr>]\<rparr>)"
    by (simp add: review_defs scenario_defs)
  from booking_reference_attached_or_ignored [OF f v 3, of 12 31]
    booking_reference_attached_or_ignored [OF f v 3, of 11 31]
    booking_reference_attached_or_ignored [OF f v 3, of 99 31] 4 5 6
  show ?thesis
    by (simp add: scenario_defs)
qed

text \<open>
  C10. The guest stored with a created booking or review is the requesting user, and a
  guest value sent by the client changes nothing: the request has the same outcome with
  any value there.
\<close>

theorem stored_guest_is_requesting_user:
  "create_booking d today usr new_id (rq\<lparr>req_guest := g\<rparr>) =
     create_booking d today usr new_id rq
   \<and> create_review d usr new_id (rrq\<lparr>rreq_guest := g\<rparr>) = create_review d usr new_id rrq
   \<and> (\<forall>b d'. create_booking d today usr new_id rq = Inr (b, d') \<longrightarrow> guest b = usr)
   \<and> (\<forall>r d'. create_review d usr new_id rrq = Inr (r, d') \<longrightarrow> review_guest r = usr)"
proof -
  have "booking_to_internal_value (rq\<lparr>req_guest := g\<rparr>) = booking_to_internal_value rq"
    by (simp add: booking_to_internal_value_def)
  then have 1: "create_booking d today usr new_id (rq\<lparr>req_guest := g\<rparr>) =
      create_booking d today usr new_id rq"
    by (simp add: create_booking_def)
  have "review_to_internal_value (rrq\<lparr>rreq_guest := g\<rparr>) = review_to_internal_value rrq"
    by (simp add: review_to_internal_value_def split: sum.splits)
  then have 2: "create_review d usr new_id (rrq\<lparr>rreq_guest := g\<rparr>) =
      create_review d usr new_id rrq"
    by (simp add: create_review_def)
  have 3: "guest b = usr" if "create_booking d today usr new_id rq = Inr (b, d')" for b d'
    using create_booking_Inr [OF that] by auto
  have 4: "review_guest r = usr" if "create_review d usr new_id rrq = Inr (r, d')" for r d'
    using create_review_Inr [OF that] by auto
  from 1 2 3 4 show ?thesis by blast
qed

theorem stored_guest_is_requesting_user_witness:
  "create_booking db0 0 2 11 ((request 1 5)\<lparr>req_guest := Some 9\<rparr>) = Inr (booking_A, db_A)
   \<and> guest booking_A = 2
   \<and> create_review db_stayed 2 11 ((review_request None 5)\<lparr>rreq_guest := Some 9\<rparr>) =
       Inr (review0\<lparr>review_id := 11, review_booking := None\<rparr>,
            db_stayed\<lparr>reviews := [review0\<lparr>review_id := 11, review_booking := None\<rparr>]\<rparr>)
   \<and> review_guest review0 = 2"
proof -
  have 1: "create_booking db0 0 2 11 (request 1 5) = Inr (booking_A, db_A)"
    by (simp add: booking_defs scenario_defs)
  have 2: "create_review db_stayed 2 11 (review_request None 5) =
       Inr (review0\<lparr>review_id := 11, review_booking := None\<rparr>,
            db_stayed\<lparr>reviews := [review0\<lparr>review_id := 11, review_booking := None\<rparr>]\<rparr>)"
    by (simp add: review_defs scenario_defs)
  from 1 2 stored_guest_is_requesting_user
    [where d = db0 and today = 0 and usr = 2 and new_id = 11 and rq = "request 1 5"
       and g = "Some 9"]
    stored_guest_is_requesting_user
    [where d = db_stayed and usr = 2 and new_id = 11 and rrq = "review_request None 5"
       and g = "Some 9"]
  show ?thesis by (simp add: scenario_defs)
qed

end
